theory Spec2Isabelle
  imports Main "HOL-Library.Sublist"
begin

section \<open>JavaScript values used by server/index.js\<close>

text \<open>
  The request bodies and the two JSON files hold objects whose fields are strings
  (see the body shapes documented above each route in \<^verbatim>\<open>index.js\<close>). A field is
  modelled as \<open>string option\<close>: \<open>None\<close> is a key that is absent from the object, which
  JavaScript reads as \<^verbatim>\<open>undefined\<close>. A \<open>char\<close> stands for one UTF-16 code unit below
  256, so the white space of \<^verbatim>\<open>trim\<close> and \<^verbatim>\<open>parseInt\<close> in that range is TAB, LF, VT,
  FF, CR, SP and NBSP.

  The numbers of the program are IEEE doubles. \<^verbatim>\<open>toMinutes\<close> only builds them from
  integers, so a number is NaN, plus or minus Infinity, or \<open>Num n\<close> for an integer \<open>n\<close>
  that a double holds exactly. \<open>round_double\<close> is the rounding every operation ends
  with: the nearest double, ties to the even significand of 53 bits, and Infinity from
  \<open>2^1024\<close> on. Zero has one sign here: \<^verbatim>\<open>|| 0\<close> turns \<^verbatim>\<open>-0\<close> into \<^verbatim>\<open>0\<close> and no later
  operation of \<^verbatim>\<open>toMinutes\<close> gives \<^verbatim>\<open>-0\<close>.
\<close>

datatype jsnum = NaN | Infinity | NegInfinity | Num int

fun bitLength :: "nat \<Rightarrow> nat" where
  \<comment> \<open>the number of binary digits of \<open>n\<close>\<close>
  "bitLength n = (if n = 0 then 0 else 1 + bitLength (n div 2))"

declare bitLength.simps [simp del]

definition round_double :: "int \<Rightarrow> jsnum" where
  "round_double n =
     (let a = nat \<bar>n\<bar>
      in if a < 2 ^ 53 then Num n
         else
           let sh = bitLength a - 53;
               q = a div 2 ^ sh;
               r = a mod 2 ^ sh;
               half = 2 ^ (sh - 1);
               q' = (if half < r \<or> (r = half \<and> odd q) then q + 1 else q);
               v = q' * 2 ^ sh
           in if 2 ^ 1024 \<le> v then (if n < 0 then NegInfinity else Infinity)
              else Num (sgn n * int v))"

type_synonym field = "string option"

definition truthy :: "field \<Rightarrow> bool" where
  \<comment> \<open>\<^verbatim>\<open>undefined\<close> and the empty string are falsy, every other string is truthy\<close>
  "truthy x = (case x of None \<Rightarrow> False | Some s \<Rightarrow> s \<noteq> [])"

definition js_or :: "field \<Rightarrow> field \<Rightarrow> field" where
  \<comment> \<open>\<^verbatim>\<open>a || b\<close>\<close>
  "js_or a b = (if truthy a then a else b)"

definition String_js :: "field \<Rightarrow> string" where
  \<comment> \<open>\<^verbatim>\<open>String(x)\<close>\<close>
  "String_js x = (case x of None \<Rightarrow> ''undefined'' | Some s \<Rightarrow> s)"

fun sign_of :: "jsnum \<Rightarrow> int" where
  "sign_of NaN = 0"
| "sign_of Infinity = 1"
| "sign_of NegInfinity = - 1"
| "sign_of (Num x) = sgn x"

fun js_mul :: "jsnum \<Rightarrow> jsnum \<Rightarrow> jsnum" where
  \<comment> \<open>\<^verbatim>\<open>a * b\<close>: the rounded product; Infinity times zero is NaN\<close>
  "js_mul NaN b = NaN"
| "js_mul a NaN = NaN"
| "js_mul (Num x) (Num y) = round_double (x * y)"
| "js_mul a b =
     (if sign_of a * sign_of b = 0 then NaN
      else if 0 < sign_of a * sign_of b then Infinity else NegInfinity)"

fun js_add :: "jsnum \<Rightarrow> jsnum \<Rightarrow> jsnum" where
  \<comment> \<open>\<^verbatim>\<open>a + b\<close>: the rounded sum; Infinity plus -Infinity is NaN\<close>
  "js_add NaN b = NaN"
| "js_add a NaN = NaN"
| "js_add (Num x) (Num y) = round_double (x + y)"
| "js_add Infinity NegInfinity = NaN"
| "js_add NegInfinity Infinity = NaN"
| "js_add Infinity b = Infinity"
| "js_add a Infinity = Infinity"
| "js_add NegInfinity b = NegInfinity"
| "js_add a NegInfinity = NegInfinity"

fun js_le :: "jsnum \<Rightarrow> jsnum \<Rightarrow> bool" where
  \<comment> \<open>\<^verbatim>\<open>a <= b\<close>: false as soon as one side is NaN\<close>
  "js_le NaN b = False"
| "js_le a NaN = False"
| "js_le (Num x) (Num y) = (x \<le> y)"
| "js_le NegInfinity b = True"
| "js_le a Infinity = True"
| "js_le a b = False"

definition js_ge :: "jsnum \<Rightarrow> jsnum \<Rightarrow> bool" where
  \<comment> \<open>\<^verbatim>\<open>a >= b\<close>: false as soon as one side is NaN\<close>
  "js_ge a b = js_le b a"

definition or_zero :: "jsnum \<Rightarrow> jsnum" where
  \<comment> \<open>\<^verbatim>\<open>n || 0\<close>: NaN and 0 are the falsy numbers\<close>
  "or_zero n = (case n of NaN \<Rightarrow> Num 0 | Num k \<Rightarrow> (if k = 0 then Num 0 else Num k)
                | other \<Rightarrow> other)"

definition isWhiteSpace :: "char \<Rightarrow> bool" where
  "isWhiteSpace c = ((of_char c :: nat) \<in> {9, 10, 11, 12, 13, 32, 160})"

definition isDigit :: "char \<Rightarrow> bool" where
  "isDigit c = (48 \<le> (of_char c :: nat) \<and> (of_char c :: nat) \<le> 57)"

definition digitVal :: "char \<Rightarrow> int" where
  "digitVal c = int (of_char c) - 48"

definition trim :: "string \<Rightarrow> string" where
  \<comment> \<open>\<^verbatim>\<open>String.prototype.trim\<close>\<close>
  "trim s = rev (dropWhile isWhiteSpace (rev (dropWhile isWhiteSpace s)))"

definition parseInt10 :: "string \<Rightarrow> jsnum" where
  \<comment> \<open>\<^verbatim>\<open>parseInt(s, 10)\<close>: leading white space, an optional sign, then the longest run
      of decimal digits; NaN when that run is empty, else the double nearest to the
      integer that the digits write\<close>
  "parseInt10 s =
     (let t = dropWhile isWhiteSpace s;
          sign = (case t of c # _ \<Rightarrow> if c = CHR ''-'' then - 1 else 1 | [] \<Rightarrow> 1);
          u = (case t of c # r \<Rightarrow> if c = CHR ''-'' \<or> c = CHR ''+'' then r else t | [] \<Rightarrow> []);
          z = takeWhile isDigit u
      in if z = [] then NaN
         else round_double (sign * foldl (\<lambda>a c. a * 10 + digitVal c) 0 z))"

fun split_on :: "char \<Rightarrow> string \<Rightarrow> string list" where
  \<comment> \<open>\<^verbatim>\<open>s.split(sep)\<close> for a one-character separator; the result is never empty\<close>
  "split_on sep [] = [[]]"
| "split_on sep (c # cs) =
     (if c = sep then [] # split_on sep cs
      else (case split_on sep cs of p # ps \<Rightarrow> (c # p) # ps | [] \<Rightarrow> [[c]]))"

section \<open>Time arithmetic\<close>

text \<open>
  \<^verbatim>\<open>
  function toMinutes(str) {
    const [h, m] = String(str).split(':').map((x) => parseInt(x, 10) || 0);
    return h * 60 + m;
  }
  \<close>
  The destructuring binds \<^verbatim>\<open>m\<close> to \<^verbatim>\<open>undefined\<close> when the split has a single part,
  and a number plus \<^verbatim>\<open>undefined\<close> is NaN.
\<close>

definition toMinutes :: "field \<Rightarrow> jsnum" where
  "toMinutes str =
     (case map (\<lambda>x. or_zero (parseInt10 x)) (split_on CHR '':'' (String_js str)) of
        h # m # _ \<Rightarrow> js_add (js_mul h (Num 60)) m
      | _ \<Rightarrow> NaN)"

section \<open>Weekly schedule: POST /api/schedule/slot\<close>

record slot =
  day :: field
  room :: field
  startTime :: field
  endTime :: field
  className :: field

definition overlaps :: "jsnum \<Rightarrow> jsnum \<Rightarrow> jsnum \<Rightarrow> jsnum \<Rightarrow> bool" where
  \<comment> \<open>the test \<^verbatim>\<open>!(eMin <= itS || sMin >= itE)\<close>\<close>
  "overlaps sMin eMin itS itE = (\<not> (js_le eMin itS \<or> js_ge sMin itE))"

definition keep_item :: "slot \<Rightarrow> slot \<Rightarrow> bool" where
  \<comment> \<open>the callback of \<^verbatim>\<open>schedule.filter\<close>, for the request body \<open>b\<close>\<close>
  "keep_item b item =
     (if day item \<noteq> day b \<or> room item \<noteq> room b then True
      else let itS = toMinutes (startTime item);
               itE = toMinutes (endTime item)
           in if overlaps (toMinutes (startTime b)) (toMinutes (endTime b)) itS itE
              then False else True)"

definition trimmedName :: "slot \<Rightarrow> string" where
  \<comment> \<open>\<^verbatim>\<open>(className || '').trim()\<close>; the operand of \<^verbatim>\<open>trim\<close> is always a string\<close>
  "trimmedName b = trim (String_js (js_or (className b) (Some [])))"

definition resolve :: "slot list \<Rightarrow> slot \<Rightarrow> slot list" where
  \<comment> \<open>lines 140 to 164 of the handler: filter, then push when the label is non-empty\<close>
  "resolve schedule b =
     (let filtered = filter (keep_item b) schedule
      in if trimmedName b \<noteq> []
         then filtered @ [\<lparr>day = day b, room = room b, startTime = startTime b,
                           endTime = endTime b, className = Some (trimmedName b)\<rparr>]
         else filtered)"

section \<open>The server: files, broadcasts, responses\<close>

record event =
  id :: field
  date :: field
  room :: field
  startTime :: field
  endTime :: field
  eventName :: field
  createdBy :: field

text \<open>
  \<open>schedule_file\<close> and \<open>events_file\<close> are what \<^verbatim>\<open>readSchedule\<close> and \<^verbatim>\<open>readEvents\<close>
  return; \<open>emitted\<close> is the log of \<^verbatim>\<open>io.emit\<close> calls, oldest first. Writing and reading
  back a list of these objects through JSON gives the same list. A write that throws
  is taken to leave the file as it was.
\<close>

datatype emit = ScheduleUpdate "slot list" | EventsUpdate "event list"

record server =
  schedule_file :: "slot list"
  events_file :: "event list"
  emitted :: "emit list"

text \<open>
  What a handler reads from outside: the clock \<^verbatim>\<open>Date.now()\<close> in milliseconds, the
  integer \<^verbatim>\<open>Math.floor(Math.random() * 10000)\<close> (between 0 and 9999), and whether
  \<^verbatim>\<open>fs.writeFileSync\<close> returns or throws.
\<close>

record env =
  now :: nat
  random10000 :: nat
  write_ok :: bool

datatype json =
    ErrorJson string  \<comment> \<open>\<^verbatim>\<open>{ error: ... }\<close>\<close>
  | MessageJson string  \<comment> \<open>\<^verbatim>\<open>{ message: ... }\<close>\<close>
  | ScheduleJson "slot list"  \<comment> \<open>\<^verbatim>\<open>{ success: true, schedule: ... }\<close>\<close>
  | EventsJson "event list"  \<comment> \<open>\<^verbatim>\<open>{ success: true, events: ... }\<close>\<close>

record response =
  status :: nat
  body :: json

definition post_schedule_slot :: "env \<Rightarrow> server \<Rightarrow> slot \<Rightarrow> server \<times> response" where
  "post_schedule_slot e st b =
     (if \<not> truthy (day b) \<or> \<not> truthy (slot.room b) \<or> \<not> truthy (slot.startTime b)
         \<or> \<not> truthy (slot.endTime b)
      then (st, \<lparr>status = 400, body = ErrorJson ''missing fields''\<rparr>)
      else
        let filtered = resolve (schedule_file st) b
        in if write_ok e
           then let st' = st\<lparr>schedule_file := filtered\<rparr>;
                    payload = schedule_file st'
                in (st'\<lparr>emitted := emitted st' @ [ScheduleUpdate payload]\<rparr>,
                    \<lparr>status = 200, body = ScheduleJson payload\<rparr>)
           else (st, \<lparr>status = 500, body = ErrorJson ''write failed''\<rparr>))"

section \<open>Date-specific events: POST /api/events\<close>

record events_body =
  action :: field
  id :: field
  date :: field
  room :: field
  startTime :: field
  endTime :: field
  eventName :: field

definition digitChar :: "nat \<Rightarrow> char" where
  "digitChar d = ''0123456789abcdefghijklmnopqrstuvwxyz'' ! d"

function toStringRadix :: "nat \<Rightarrow> nat \<Rightarrow> string" where
  \<comment> \<open>\<^verbatim>\<open>n.toString(radix)\<close> for a non-negative integer and a radix from 2 to 36\<close>
  "toStringRadix radix n =
     (if n < radix \<or> radix < 2 then [digitChar n]
      else toStringRadix radix (n div radix) @ [digitChar (n mod radix)])"
  by pat_completeness auto
termination
  by (relation "measure (\<lambda>(radix, n). n)") auto

declare toStringRadix.simps [simp del]

definition newId :: "env \<Rightarrow> string" where
  \<comment> \<open>\<^verbatim>\<open>Date.now().toString(36) + '-' + Math.floor(Math.random() * 10000)\<close>\<close>
  "newId e = toStringRadix 36 (now e) @ ''-'' @ toStringRadix 10 (random10000 e)"

definition update_event :: "events_body \<Rightarrow> event \<Rightarrow> event" where
  \<comment> \<open>the callback of \<^verbatim>\<open>events.map\<close> in the update branch\<close>
  "update_event b ev =
     (if event.id ev \<noteq> events_body.id b then ev
      else ev\<lparr>event.date := js_or (events_body.date b) (event.date ev),
              event.room := js_or (events_body.room b) (event.room ev),
              event.startTime := js_or (events_body.startTime b) (event.startTime ev),
              event.endTime := js_or (events_body.endTime b) (event.endTime ev),
              event.eventName := js_or (events_body.eventName b) (event.eventName ev)\<rparr>)"

definition save_events :: "env \<Rightarrow> server \<Rightarrow> event list \<Rightarrow> server \<times> response" where
  \<comment> \<open>the final \<^verbatim>\<open>try\<close> block: write, read back, emit, answer\<close>
  "save_events e st events =
     (if write_ok e
      then let st' = st\<lparr>events_file := events\<rparr>;
               latest = events_file st'
           in (st'\<lparr>emitted := emitted st' @ [EventsUpdate latest]\<rparr>,
               \<lparr>status = 200, body = EventsJson latest\<rparr>)
      else (st, \<lparr>status = 500, body = MessageJson ''write failed''\<rparr>))"

definition post_events :: "env \<Rightarrow> server \<Rightarrow> field \<Rightarrow> events_body \<Rightarrow> server \<times> response" where
  \<comment> \<open>\<open>userId\<close> is \<^verbatim>\<open>req.user.userId\<close>, set by the auth middleware from the token\<close>
  "post_events e st userId b =
     (let events = events_file st
      in if \<not> truthy (action b)
         then (st, \<lparr>status = 400, body = MessageJson ''action is required''\<rparr>)
         else if action b = Some ''create''
         then
           if \<not> truthy (events_body.date b) \<or> \<not> truthy (events_body.room b)
              \<or> \<not> truthy (events_body.startTime b) \<or> \<not> truthy (events_body.endTime b)
              \<or> \<not> truthy (events_body.eventName b)
           then (st, \<lparr>status = 400, body = MessageJson ''Missing fields''\<rparr>)
           else
             let ev = \<lparr>event.id = Some (newId e), date = events_body.date b,
                       room = events_body.room b, startTime = events_body.startTime b,
                       endTime = events_body.endTime b, eventName = events_body.eventName b,
                       createdBy = userId\<rparr>
             in save_events e st (events @ [ev])
         else if action b = Some ''update''
         then
           if \<not> truthy (events_body.id b)
           then (st, \<lparr>status = 400, body = MessageJson ''id is required''\<rparr>)
           else save_events e st (map (update_event b) events)
         else if action b = Some ''delete''
         then
           if \<not> truthy (events_body.id b)
           then (st, \<lparr>status = 400, body = MessageJson ''id is required''\<rparr>)
           else save_events e st (filter (\<lambda>ev. event.id ev \<noteq> events_body.id b) events)
         else (st, \<lparr>status = 400, body = MessageJson ''Unknown action''\<rparr>))"

section \<open>Properties of the time arithmetic\<close>

lemmas eval_defs = toMinutes_def parseInt10_def String_js_def or_zero_def isWhiteSpace_def
  isDigit_def digitVal_def round_double_def js_ge_def overlaps_def keep_item_def
  trimmedName_def trim_def js_or_def truthy_def resolve_def

lemma truthy_simps [simp]: "truthy None = False" "truthy (Some s) = (s \<noteq> [])"
  by (simp_all add: truthy_def)

lemma split_on_not_Nil: "split_on sep s \<noteq> []"
  by (induction s) (auto split: list.splits)

lemma split_on_single: "(\<exists>p. split_on sep s = [p]) \<longleftrightarrow> sep \<notin> set s"
proof (induction s)
  case Nil
  then show ?case by simp
next
  case (Cons c cs)
  show ?case
  proof (cases "c = sep")
    case True
    then show ?thesis by (simp add: split_on_not_Nil)
  next
    case False
    with Cons show ?thesis by (auto simp: split_on_not_Nil split: list.splits)
  qed
qed

lemma toMinutes_no_colon:
  assumes "CHR '':'' \<notin> set s"
  shows "toMinutes (Some s) = NaN"
proof -
  obtain p where "split_on CHR '':'' s = [p]"
    using assms split_on_single by blast
  then show ?thesis by (simp add: toMinutes_def String_js_def)
qed

text \<open>
  Ties go to the even significand, and the largest double is followed by Infinity.
\<close>

lemma round_double_ties:
  "round_double (2 ^ 53 + 1) = Num (2 ^ 53)"
  "round_double (2 ^ 53 + 3) = Num (2 ^ 53 + 4)"
  "round_double (- (2 ^ 53) - 3) = Num (- (2 ^ 53) - 4)"
  by (simp_all add: round_double_def bitLength.simps)

lemma round_double_overflow:
  "round_double (2 ^ 1024 - 2 ^ 970) = Infinity"
  by (simp add: round_double_def bitLength.simps)

text \<open>
  Above \<open>2^53\<close> the minutes are rounded: 9007199254740993 hours parse to
  9007199254740992, and 9007199254740991 hours and 120 minutes give a multiple of 64.
\<close>

lemma toMinutes_rounds:
  "toMinutes (Some ''9007199254740993:0'') = Num 540431955284459520"
  "toMinutes (Some ''9007199254740991:120'') = Num 540431955284459584"
  "toMinutes (Some ''09:30'') = Num 570"
  by (simp_all add: eval_defs bitLength.simps)

text \<open>
  C4. The spec says that \<^verbatim>\<open>toMinutes\<close> defaults a missing component to 0 and always
  returns the integer \<open>hours * 60 + minutes\<close>, also for a string with no colon. The code
  returns NaN for the string \<^verbatim>\<open>"9"\<close>, where the spec gives 540: the minutes are
  \<^verbatim>\<open>undefined\<close>, not 0 (by \<open>toMinutes_no_colon\<close> this happens for every string
  without a colon).
\<close>

theorem toMinutes_without_colon: "toMinutes (Some ''9'') = NaN"
  by (simp add: toMinutes_def String_js_def)

section \<open>Properties of the slot resolver\<close>

lemma resolve_filter:
  "resolve S b =
     filter (\<lambda>x. \<not> (day x = day b \<and> slot.room x = slot.room b
              \<and> overlaps (toMinutes (slot.startTime b)) (toMinutes (slot.endTime b))
                   (toMinutes (slot.startTime x)) (toMinutes (slot.endTime x)))) S
     @ (if trimmedName b \<noteq> []
        then [\<lparr>day = day b, room = slot.room b, startTime = slot.startTime b,
               endTime = slot.endTime b, className = Some (trimmedName b)\<rparr>]
        else [])"
proof -
  have "keep_item b = (\<lambda>x. \<not> (day x = day b \<and> slot.room x = slot.room b
              \<and> overlaps (toMinutes (slot.startTime b)) (toMinutes (slot.endTime b))
                   (toMinutes (slot.startTime x)) (toMinutes (slot.endTime x))))"
    by (auto simp: keep_item_def fun_eq_iff)
  then show ?thesis by (simp add: resolve_def)
qed

text \<open>
  The resolver compares the rounded minutes. A slot from 9007199254740992:0 stays next to
  a proposal that ends at 9007199254740993:0, since both are the same double; a slot from
  9007199254740993:0 is deleted by a proposal that ends at 9007199254740991:120, which
  rounds up past it; and a proposal from 9007199254740992:0 to 9007199254740993:0 is
  empty as doubles, so that proposing it again adds a second copy.
\<close>

lemma resolve_at_rounded_times:
  "resolve
     [\<lparr>day = Some ''Mon'', room = Some ''Room1'', startTime = Some ''9007199254740992:0'',
       endTime = Some ''9007199254740999:0'', className = Some ''Math''\<rparr>]
     \<lparr>day = Some ''Mon'', room = Some ''Room1'', startTime = Some ''0:0'',
      endTime = Some ''9007199254740993:0'', className = Some ''Physics''\<rparr>
   = [\<lparr>day = Some ''Mon'', room = Some ''Room1'', startTime = Some ''9007199254740992:0'',
       endTime = Some ''9007199254740999:0'', className = Some ''Math''\<rparr>,
      \<lparr>day = Some ''Mon'', room = Some ''Room1'', startTime = Some ''0:0'',
       endTime = Some ''9007199254740993:0'', className = Some ''Physics''\<rparr>]"
  "resolve
     [\<lparr>day = Some ''Mon'', room = Some ''Room1'', startTime = Some ''9007199254740993:0'',
       endTime = Some ''9007199254740999:0'', className = Some ''Math''\<rparr>]
     \<lparr>day = Some ''Mon'', room = Some ''Room1'', startTime = Some ''0:0'',
      endTime = Some ''9007199254740991:120'', className = None\<rparr>
   = []"
  "resolve
     [\<lparr>day = Some ''Mon'', room = Some ''Room1'', startTime = Some ''9007199254740992:0'',
       endTime = Some ''9007199254740993:0'', className = Some ''Physics''\<rparr>]
     \<lparr>day = Some ''Mon'', room = Some ''Room1'', startTime = Some ''9007199254740992:0'',
      endTime = Some ''9007199254740993:0'', className = Some ''Physics''\<rparr>
   = [\<lparr>day = Some ''Mon'', room = Some ''Room1'', startTime = Some ''9007199254740992:0'',
       endTime = Some ''9007199254740993:0'', className = Some ''Physics''\<rparr>,
      \<lparr>day = Some ''Mon'', room = Some ''Room1'', startTime = Some ''9007199254740992:0'',
       endTime = Some ''9007199254740993:0'', className = Some ''Physics''\<rparr>]"
  by (simp_all add: eval_defs bitLength.simps)

text \<open>
  C1. When the trimmed label is not empty, the schedule that \<open>resolve\<close> returns ends with
  the new slot of the proposal, and no slot before it has the day and room of the
  proposal and an interval that overlaps the proposal's under the rule
  \<open>\<not> (eMin \<le> itS \<or> sMin \<ge> itE)\<close>.
\<close>

theorem resolve_places_slot:
  assumes "trimmedName b \<noteq> []"
  shows "last (resolve S b) =
           \<lparr>day = day b, room = slot.room b, startTime = slot.startTime b,
            endTime = slot.endTime b, className = Some (trimmedName b)\<rparr>
         \<and> last (resolve S b) \<in> set (resolve S b)
         \<and> (\<forall>x \<in> set (butlast (resolve S b)).
               \<not> (day x = day b \<and> slot.room x = slot.room b
                  \<and> overlaps (toMinutes (slot.startTime b)) (toMinutes (slot.endTime b))
                       (toMinutes (slot.startTime x)) (toMinutes (slot.endTime x))))"
  using assms by (simp add: resolve_filter)

theorem resolve_places_slot_witness:
  "trimmedName \<lparr>day = Some ''Mon'', room = Some ''Room1'', startTime = Some ''09:30'',
                endTime = Some ''10:30'', className = Some ''Physics''\<rparr> \<noteq> []
   \<and> last (resolve
         [\<lparr>day = Some ''Mon'', room = Some ''Room1'', startTime = Some ''09:00'',
           endTime = Some ''10:00'', className = Some ''Math''\<rparr>]
         \<lparr>day = Some ''Mon'', room = Some ''Room1'', startTime = Some ''09:30'',
          endTime = Some ''10:30'', className = Some ''Physics''\<rparr>)
       = \<lparr>day = Some ''Mon'', room = Some ''Room1'', startTime = Some ''09:30'',
          endTime = Some ''10:30'', className = Some ''Physics''\<rparr>
   \<and> butlast (resolve
         [\<lparr>day = Some ''Mon'', room = Some ''Room1'', startTime = Some ''09:00'',
           endTime = Some ''10:00'', className = Some ''Math''\<rparr>]
         \<lparr>day = Some ''Mon'', room = Some ''Room1'', startTime = Some ''09:30'',
          endTime = Some ''10:30'', className = Some ''Physics''\<rparr>) = []"
proof -
  have h: "trimmedName \<lparr>day = Some ''Mon'', room = Some ''Room1'', startTime = Some ''09:30'',
             endTime = Some ''10:30'', className = Some ''Physics''\<rparr> \<noteq> []"
    by (simp add: eval_defs)
  show ?thesis
    using h resolve_places_slot [OF h,
      of "[\<lparr>day = Some ''Mon'', room = Some ''Room1'', startTime = Some ''09:00'',
            endTime = Some ''10:00'', className = Some ''Math''\<rparr>]"]
    by (simp add: eval_defs)
qed



text \<open>
  C8. When the label trims to the empty string, \<open>resolve\<close> only deletes: the result is
  the schedule without the slots of the proposal's day and room that overlap its
  interval, in the same order, so no slot is added and no overlapping slot is left.
\<close>

theorem resolve_empty_label:
  assumes "trimmedName b = []"
  shows "resolve S b =
           filter (\<lambda>x. \<not> (day x = day b \<and> slot.room x = slot.room b
              \<and> overlaps (toMinutes (slot.startTime b)) (toMinutes (slot.endTime b))
                   (toMinutes (slot.startTime x)) (toMinutes (slot.endTime x)))) S
       \<and> subseq (resolve S b) S
       \<and> (\<forall>x \<in> set (resolve S b).
             \<not> (day x = day b \<and> slot.room x = slot.room b
                \<and> overlaps (toMinutes (slot.startTime b)) (toMinutes (slot.endTime b))
                     (toMinutes (slot.startTime x)) (toMinutes (slot.endTime x))))"
  using assms by (simp add: resolve_filter)

theorem resolve_empty_label_witness:
  "trimmedName \<lparr>day = Some ''Mon'', room = Some ''Room1'', startTime = Some ''09:30'',
                endTime = Some ''10:30'', className = Some '' ''\<rparr> = []
   \<and> resolve
        [\<lparr>day = Some ''Mon'', room = Some ''Room1'', startTime = Some ''09:00'',
          endTime = Some ''10:00'', className = Some ''Math''\<rparr>,
         \<lparr>day = Some ''Tue'', room = Some ''Room1'', startTime = Some ''09:00'',
          endTime = Some ''10:00'', className = Some ''Art''\<rparr>]
        \<lparr>day = Some ''Mon'', room = Some ''Room1'', startTime = Some ''09:30'',
         endTime = Some ''10:30'', className = Some '' ''\<rparr>
      = [\<lparr>day = Some ''Tue'', room = Some ''Room1'', startTime = Some ''09:00'',
          endTime = Some ''10:00'', className = Some ''Art''\<rparr>]"
proof -
  have h: "trimmedName \<lparr>day = Some ''Mon'', room = Some ''Room1'', startTime = Some ''09:30'',
             endTime = Some ''10:30'', className = Some '' ''\<rparr> = []"
    by (simp add: eval_defs)
  show ?thesis
    using h resolve_empty_label [OF h,
      of "[\<lparr>day = Some ''Mon'', room = Some ''Room1'', startTime = Some ''09:00'',
            endTime = Some ''10:00'', className = Some ''Math''\<rparr>,
           \<lparr>day = Some ''Tue'', room = Some ''Room1'', startTime = Some ''09:00'',
            endTime = Some ''10:00'', className = Some ''Art''\<rparr>]"]
    by (simp add: eval_defs)
qed

lemma resolve_twice:
  "resolve (resolve S b) b = resolve S b \<longleftrightarrow>
     trimmedName b = []
     \<or> overlaps (toMinutes (slot.startTime b)) (toMinutes (slot.endTime b))
         (toMinutes (slot.startTime b)) (toMinutes (slot.endTime b))"
  by (simp add: resolve_filter)

text \<open>
  C3, as the spec states it: \<open>resolve\<close> is idempotent for any proposal, zero-length
  intervals included. It is not: on the empty schedule, a proposal from 10:00 to 10:00
  with a label gives one slot, and proposing it again gives two, since the slot does not
  overlap itself under the rule.
\<close>

theorem resolve_not_idempotent:
  "resolve (resolve [] \<lparr>day = Some ''Mon'', room = Some ''Room1'', startTime = Some ''10:00'',
                        endTime = Some ''10:00'', className = Some ''Physics''\<rparr>)
      \<lparr>day = Some ''Mon'', room = Some ''Room1'', startTime = Some ''10:00'',
       endTime = Some ''10:00'', className = Some ''Physics''\<rparr>
   \<noteq> resolve [] \<lparr>day = Some ''Mon'', room = Some ''Room1'', startTime = Some ''10:00'',
                  endTime = Some ''10:00'', className = Some ''Physics''\<rparr>"
  by (simp add: eval_defs)

text \<open>
  C3, amended: \<open>resolve\<close> is idempotent for every proposal whose label trims to the empty
  string, and for every proposal whose start is strictly before its end, both taken as
  the finite numbers of minutes that \<^verbatim>\<open>toMinutes\<close> computes.
\<close>

theorem resolve_idempotent:
  assumes "trimmedName b = []
           \<or> (toMinutes (slot.startTime b) = Num s \<and> toMinutes (slot.endTime b) = Num e \<and> s < e)"
  shows "resolve (resolve S b) b = resolve S b"
  using assms by (auto simp: resolve_twice overlaps_def js_ge_def)

theorem resolve_idempotent_witness:
  "toMinutes (Some ''09:30'') = Num 570 \<and> toMinutes (Some ''10:30'') = Num 630
   \<and> resolve
        (resolve
          [\<lparr>day = Some ''Mon'', room = Some ''Room1'', startTime = Some ''09:00'',
            endTime = Some ''10:00'', className = Some ''Math''\<rparr>]
          \<lparr>day = Some ''Mon'', room = Some ''Room1'', startTime = Some ''09:30'',
           endTime = Some ''10:30'', className = Some ''Physics''\<rparr>)
        \<lparr>day = Some ''Mon'', room = Some ''Room1'', startTime = Some ''09:30'',
         endTime = Some ''10:30'', className = Some ''Physics''\<rparr>
      = [\<lparr>day = Some ''Mon'', room = Some ''Room1'', startTime = Some ''09:30'',
          endTime = Some ''10:30'', className = Some ''Physics''\<rparr>]"
proof -
  have h: "trimmedName \<lparr>day = Some ''Mon'', room = Some ''Room1'', startTime = Some ''09:30'',
             endTime = Some ''10:30'', className = Some ''Physics''\<rparr> = []
     \<or> (toMinutes (slot.startTime \<lparr>day = Some ''Mon'', room = Some ''Room1'',
             startTime = Some ''09:30'', endTime = Some ''10:30'',
             className = Some ''Physics''\<rparr>) = Num 570
        \<and> toMinutes (slot.endTime \<lparr>day = Some ''Mon'', room = Some ''Room1'',
             startTime = Some ''09:30'', endTime = Some ''10:30'',
             className = Some ''Physics''\<rparr>) = Num 630
        \<and> (570::int) < 630)"
    by (simp add: eval_defs)
  show ?thesis
    using h resolve_idempotent [OF h,
      of "[\<lparr>day = Some ''Mon'', room = Some ''Room1'', startTime = Some ''09:00'',
            endTime = Some ''10:00'', className = Some ''Math''\<rparr>]"]
    by (simp add: eval_defs)
qed

section \<open>Properties of POST /api/schedule/slot\<close>

lemma post_schedule_slot_ok:
  assumes "truthy (day b)" "truthy (slot.room b)" "truthy (slot.startTime b)"
    "truthy (slot.endTime b)" "write_ok e"
  shows "post_schedule_slot e st b =
           (st\<lparr>schedule_file := resolve (schedule_file st) b,
               emitted := emitted st @ [ScheduleUpdate (resolve (schedule_file st) b)]\<rparr>,
            \<lparr>status = 200, body = ScheduleJson (resolve (schedule_file st) b)\<rparr>)"
  using assms by (simp add: post_schedule_slot_def Let_def)

text \<open>
  C10. A request that has day, room, startTime and endTime but no className is not
  answered with status 400. It is handled exactly as the same request with the empty
  label, and when the write succeeds the answer is the success response: the stored and
  broadcast schedule is the old one without the slots that overlap the request.
\<close>

theorem slot_without_className:
  assumes "className b = None" "truthy (day b)" "truthy (slot.room b)"
    "truthy (slot.startTime b)" "truthy (slot.endTime b)"
  shows "status (snd (post_schedule_slot e st b)) \<noteq> 400
       \<and> post_schedule_slot e st b = post_schedule_slot e st (b\<lparr>className := Some []\<rparr>)
       \<and> (write_ok e \<longrightarrow>
            (let kept = filter (\<lambda>x. \<not> (day x = day b \<and> slot.room x = slot.room b
                          \<and> overlaps (toMinutes (slot.startTime b)) (toMinutes (slot.endTime b))
                               (toMinutes (slot.startTime x)) (toMinutes (slot.endTime x))))
                        (schedule_file st)
             in post_schedule_slot e st b =
                  (st\<lparr>schedule_file := kept, emitted := emitted st @ [ScheduleUpdate kept]\<rparr>,
                   \<lparr>status = 200, body = ScheduleJson kept\<rparr>)))"
proof -
  have t: "trimmedName b = []" "trimmedName (b\<lparr>className := Some []\<rparr>) = []"
    using assms(1) by (simp_all add: trimmedName_def js_or_def truthy_def String_js_def trim_def)
  have r: "resolve (schedule_file st) (b\<lparr>className := Some []\<rparr>) = resolve (schedule_file st) b"
    using t by (simp add: resolve_filter)
  show ?thesis
    using assms t r by (simp add: post_schedule_slot_def resolve_filter Let_def)
qed

theorem slot_without_className_witness:
  "post_schedule_slot
      \<lparr>now = 1700000000000, random10000 = 4242, write_ok = True\<rparr>
      \<lparr>schedule_file =
         [\<lparr>day = Some ''Mon'', room = Some ''Room1'', startTime = Some ''09:00'',
           endTime = Some ''10:00'', className = Some ''Math''\<rparr>,
          \<lparr>day = Some ''Mon'', room = Some ''Room2'', startTime = Some ''09:00'',
           endTime = Some ''10:00'', className = Some ''Art''\<rparr>],
       events_file = [], emitted = []\<rparr>
      \<lparr>day = Some ''Mon'', room = Some ''Room1'', startTime = Some ''09:30'',
       endTime = Some ''10:30'', className = None\<rparr>
   = (\<lparr>schedule_file =
         [\<lparr>day = Some ''Mon'', room = Some ''Room2'', startTime = Some ''09:00'',
           endTime = Some ''10:00'', className = Some ''Art''\<rparr>],
       events_file = [],
       emitted = [ScheduleUpdate
         [\<lparr>day = Some ''Mon'', room = Some ''Room2'', startTime = Some ''09:00'',
           endTime = Some ''10:00'', className = Some ''Art''\<rparr>]]\<rparr>,
      \<lparr>status = 200, body = ScheduleJson
         [\<lparr>day = Some ''Mon'', room = Some ''Room2'', startTime = Some ''09:00'',
           endTime = Some ''10:00'', className = Some ''Art''\<rparr>]\<rparr>)"
proof -
  have "write_ok \<lparr>now = 1700000000000, random10000 = 4242, write_ok = True\<rparr> \<longrightarrow>
        (let b = \<lparr>day = Some ''Mon'', room = Some ''Room1'', startTime = Some ''09:30'',
                  endTime = Some ''10:30'', className = None\<rparr>;
             st = \<lparr>schedule_file =
                    [\<lparr>day = Some ''Mon'', room = Some ''Room1'', startTime = Some ''09:00'',
                      endTime = Some ''10:00'', className = Some ''Math''\<rparr>,
                     \<lparr>day = Some ''Mon'', room = Some ''Room2'', startTime = Some ''09:00'',
                      endTime = Some ''10:00'', className = Some ''Art''\<rparr>],
                   events_file = [], emitted = []\<rparr>;
             kept = filter (\<lambda>x. \<not> (day x = day b \<and> slot.room x = slot.room b
                          \<and> overlaps (toMinutes (slot.startTime b)) (toMinutes (slot.endTime b))
                               (toMinutes (slot.startTime x)) (toMinutes (slot.endTime x))))
                        (schedule_file st)
         in post_schedule_slot \<lparr>now = 1700000000000, random10000 = 4242, write_ok = True\<rparr> st b =
              (st\<lparr>schedule_file := kept, emitted := emitted st @ [ScheduleUpdate kept]\<rparr>,
               \<lparr>status = 200, body = ScheduleJson kept\<rparr>))"
    unfolding Let_def
    by (rule slot_without_className [THEN conjunct2, THEN conjunct2, unfolded Let_def]) simp_all
  then show ?thesis
    by (simp add: Let_def toMinutes_def parseInt10_def String_js_def or_zero_def isWhiteSpace_def
        isDigit_def digitVal_def round_double_def js_ge_def overlaps_def)
qed

section \<open>Properties of the generated ids\<close>

lemma digitChar_inj:
  assumes "a < 36" "b < 36" "digitChar a = digitChar b"
  shows "a = b"
proof -
  have "distinct ''0123456789abcdefghijklmnopqrstuvwxyz''" by simp
  moreover have "length ''0123456789abcdefghijklmnopqrstuvwxyz'' = 36" by simp
  ultimately show ?thesis
    using assms nth_eq_iff_index_eq [of "''0123456789abcdefghijklmnopqrstuvwxyz''" a b]
    unfolding digitChar_def by metis
qed

lemma digitChar_not_dash:
  assumes "d < 36"
  shows "digitChar d \<noteq> CHR ''-''"
proof -
  have "digitChar d \<in> set ''0123456789abcdefghijklmnopqrstuvwxyz''"
    unfolding digitChar_def using assms by (intro nth_mem) simp
  then show ?thesis by auto
qed

lemma toStringRadix_not_Nil: "toStringRadix r n \<noteq> []"
  by (subst toStringRadix.simps) simp

lemma toStringRadix_no_dash:
  assumes "2 \<le> r" "r \<le> 36"
  shows "CHR ''-'' \<notin> set (toStringRadix r n)"
  using assms
proof (induction r n rule: toStringRadix.induct)
  case (1 radix n)
  show ?case
  proof (cases "n < radix")
    case True
    then have "n < 36" using "1.prems" by simp
    then show ?thesis
      using True digitChar_not_dash [of n] by (subst toStringRadix.simps) auto
  next
    case False
    have "0 < radix" using "1.prems" by simp
    then have "n mod radix < radix" by (rule mod_less_divisor)
    then have "n mod radix < 36" using "1.prems" by linarith
    then show ?thesis
      using False "1.prems" "1.IH" digitChar_not_dash [of "n mod radix"]
      by (subst toStringRadix.simps) auto
  qed
qed

lemma toStringRadix_inj:
  assumes "2 \<le> r" "r \<le> 36" "toStringRadix r n = toStringRadix r m"
  shows "n = m"
  using assms
proof (induction r n arbitrary: m rule: toStringRadix.induct)
  case (1 radix n)
  have pos: "0 < radix" using "1.prems" by simp
  show ?case
  proof (cases "n < radix")
    case n: True
    show ?thesis
    proof (cases "m < radix")
      case True
      with n "1.prems" have "digitChar n = digitChar m"
        by (simp add: toStringRadix.simps [of radix n] toStringRadix.simps [of radix m])
      then show ?thesis using n True "1.prems" digitChar_inj [of n m] by simp
    next
      case False
      with n "1.prems" have "[digitChar n] = toStringRadix radix (m div radix) @ [digitChar (m mod radix)]"
        by (simp add: toStringRadix.simps [of radix n] toStringRadix.simps [of radix m])
      then show ?thesis using toStringRadix_not_Nil [of radix "m div radix"] by simp
    qed
  next
    case n: False
    show ?thesis
    proof (cases "m < radix")
      case True
      with n "1.prems" have "toStringRadix radix (n div radix) @ [digitChar (n mod radix)] = [digitChar m]"
        by (simp add: toStringRadix.simps [of radix n] toStringRadix.simps [of radix m])
      then show ?thesis using toStringRadix_not_Nil [of radix "n div radix"] by simp
    next
      case False
      with n "1.prems" have eq: "toStringRadix radix (n div radix) = toStringRadix radix (m div radix)"
        and d: "digitChar (n mod radix) = digitChar (m mod radix)"
        by (simp_all add: toStringRadix.simps [of radix n] toStringRadix.simps [of radix m])
      have "n div radix = m div radix"
        using "1.IH" [of "m div radix"] n "1.prems" eq by simp
      moreover have "n mod radix < 36" "m mod radix < 36"
        using pos "1.prems"(2) mod_less_divisor [OF pos, of n] mod_less_divisor [OF pos, of m] by linarith+
      then have "n mod radix = m mod radix" using d digitChar_inj by blast
      ultimately show ?thesis by (metis div_mult_mod_eq)
    qed
  qed
qed

lemma append_sep_inj:
  assumes "xs @ c # ys = xs' @ c # ys'" "c \<notin> set xs" "c \<notin> set xs'"
  shows "xs = xs' \<and> ys = ys'"
  using assms
proof (induction xs arbitrary: xs')
  case Nil
  then show ?case by (cases xs') auto
next
  case (Cons a xs)
  then show ?case by (cases xs') auto
qed

lemma newId_inj:
  assumes "newId e = newId e'"
  shows "now e = now e' \<and> random10000 e = random10000 e'"
proof -
  have "toStringRadix 36 (now e) @ CHR ''-'' # toStringRadix 10 (random10000 e)
        = toStringRadix 36 (now e') @ CHR ''-'' # toStringRadix 10 (random10000 e')"
    using assms by (simp add: newId_def)
  then have "toStringRadix 36 (now e) = toStringRadix 36 (now e')
     \<and> toStringRadix 10 (random10000 e) = toStringRadix 10 (random10000 e')"
    by (rule append_sep_inj) (simp_all add: toStringRadix_no_dash)
  then show ?thesis using toStringRadix_inj [of 36] toStringRadix_inj [of 10] by simp
qed

lemmas id_eval = newId_def digitChar_def toStringRadix.simps

section \<open>Properties of POST /api/events\<close>

text \<open>
  C9. A request whose action is missing, empty or none of create, update and delete, and
  a create request that lacks one of date, room, startTime, endTime and eventName, is
  answered with status 400 and leaves the server as it was: the events file is the same
  and nothing is emitted.
\<close>

theorem post_events_rejects:
  assumes "\<not> truthy (action b)
         \<or> action b \<notin> {Some ''create'', Some ''update'', Some ''delete''}
         \<or> (action b = Some ''create''
             \<and> (\<not> truthy (events_body.date b) \<or> \<not> truthy (events_body.room b)
                \<or> \<not> truthy (events_body.startTime b) \<or> \<not> truthy (events_body.endTime b)
                \<or> \<not> truthy (events_body.eventName b)))"
  shows "fst (post_events e st u b) = st
       \<and> events_file (fst (post_events e st u b)) = events_file st
       \<and> emitted (fst (post_events e st u b)) = emitted st
       \<and> status (snd (post_events e st u b)) = 400"
  using assms by (auto simp: post_events_def Let_def)

theorem post_events_rejects_witness:
  "post_events
      \<lparr>now = 1700000000000, random10000 = 4242, write_ok = True\<rparr>
      \<lparr>schedule_file = [], events_file = [], emitted = []\<rparr>
      (Some ''admin1'')
      \<lparr>action = Some ''create'', id = None, date = Some ''2024-05-01'', room = Some ''R1'',
       startTime = Some ''10:00'', endTime = Some ''11:00'', eventName = None\<rparr>
   = (\<lparr>schedule_file = [], events_file = [], emitted = []\<rparr>,
      \<lparr>status = 400, body = MessageJson ''Missing fields''\<rparr>)
   \<and> fst (post_events
      \<lparr>now = 1700000000000, random10000 = 4242, write_ok = True\<rparr>
      \<lparr>schedule_file = [], events_file = [], emitted = []\<rparr>
      (Some ''admin1'')
      \<lparr>action = Some ''rename'', id = None, date = None, room = None,
       startTime = None, endTime = None, eventName = None\<rparr>)
     = \<lparr>schedule_file = [], events_file = [], emitted = []\<rparr>"
  using post_events_rejects [of
      "\<lparr>action = Some ''rename'', id = None, date = None, room = None,
        startTime = None, endTime = None, eventName = None\<rparr>"
      "\<lparr>now = 1700000000000, random10000 = 4242, write_ok = True\<rparr>"
      "\<lparr>schedule_file = [], events_file = [], emitted = []\<rparr>"
      "Some ''admin1''"]
  by (simp add: post_events_def)

text \<open>
  C2, as the spec states it: deleting an id that no event has signals not-found,
  distinctly from success, and broadcasts nothing. The handler has no such branch: with
  one stored event and the id \<^verbatim>\<open>"nope"\<close> it answers with status 200 and the success
  body, and emits the unchanged collection.
\<close>

theorem delete_missing_id_succeeds:
  "post_events
      \<lparr>now = 1700000000000, random10000 = 4242, write_ok = True\<rparr>
      \<lparr>schedule_file = [],
       events_file = [\<lparr>event.id = Some ''loyw3v28-4242'', date = Some ''2024-05-01'',
                       room = Some ''R1'', startTime = Some ''10:00'', endTime = Some ''11:00'',
                       eventName = Some ''Seminar'', createdBy = Some ''admin1''\<rparr>],
       emitted = []\<rparr>
      (Some ''admin1'')
      \<lparr>action = Some ''delete'', id = Some ''nope'', date = None, room = None,
       startTime = None, endTime = None, eventName = None\<rparr>
   = (\<lparr>schedule_file = [],
       events_file = [\<lparr>event.id = Some ''loyw3v28-4242'', date = Some ''2024-05-01'',
                       room = Some ''R1'', startTime = Some ''10:00'', endTime = Some ''11:00'',
                       eventName = Some ''Seminar'', createdBy = Some ''admin1''\<rparr>],
       emitted = [EventsUpdate [\<lparr>event.id = Some ''loyw3v28-4242'', date = Some ''2024-05-01'',
                       room = Some ''R1'', startTime = Some ''10:00'', endTime = Some ''11:00'',
                       eventName = Some ''Seminar'', createdBy = Some ''admin1''\<rparr>]]\<rparr>,
      \<lparr>status = 200,
       body = EventsJson [\<lparr>event.id = Some ''loyw3v28-4242'', date = Some ''2024-05-01'',
                       room = Some ''R1'', startTime = Some ''10:00'', endTime = Some ''11:00'',
                       eventName = Some ''Seminar'', createdBy = Some ''admin1''\<rparr>]\<rparr>)"
  by (simp add: post_events_def save_events_def Let_def)

text \<open>
  C2, amended: deleting a non-empty id that no event has leaves the event collection
  unchanged; when the write succeeds the answer is the success response with the
  unchanged collection, and that collection is emitted to the viewers.
\<close>

theorem delete_missing_id:
  assumes "action b = Some ''delete''" "truthy (events_body.id b)"
    "\<forall>ev \<in> set (events_file st). event.id ev \<noteq> events_body.id b"
  shows "events_file (fst (post_events e st u b)) = events_file st
       \<and> (write_ok e \<longrightarrow>
            post_events e st u b =
              (st\<lparr>emitted := emitted st @ [EventsUpdate (events_file st)]\<rparr>,
               \<lparr>status = 200, body = EventsJson (events_file st)\<rparr>))"
proof -
  have "filter (\<lambda>ev. event.id ev \<noteq> events_body.id b) (events_file st) = events_file st"
    using assms(3) by (simp add: filter_id_conv)
  then show ?thesis
    using assms(1,2) by (simp add: post_events_def save_events_def Let_def)
qed

theorem delete_missing_id_witness:
  "post_events
      \<lparr>now = 1700000000000, random10000 = 4242, write_ok = True\<rparr>
      \<lparr>schedule_file = [],
       events_file = [\<lparr>event.id = Some ''a-1'', date = Some ''2024-05-01'',
                       room = Some ''R1'', startTime = Some ''10:00'', endTime = Some ''11:00'',
                       eventName = Some ''Seminar'', createdBy = Some ''admin1''\<rparr>],
       emitted = []\<rparr>
      (Some ''admin2'')
      \<lparr>action = Some ''delete'', id = Some ''b-2'', date = None, room = None,
       startTime = None, endTime = None, eventName = None\<rparr>
   = (\<lparr>schedule_file = [],
       events_file = [\<lparr>event.id = Some ''a-1'', date = Some ''2024-05-01'',
                       room = Some ''R1'', startTime = Some ''10:00'', endTime = Some ''11:00'',
                       eventName = Some ''Seminar'', createdBy = Some ''admin1''\<rparr>],
       emitted = [EventsUpdate [\<lparr>event.id = Some ''a-1'', date = Some ''2024-05-01'',
                       room = Some ''R1'', startTime = Some ''10:00'', endTime = Some ''11:00'',
                       eventName = Some ''Seminar'', createdBy = Some ''admin1''\<rparr>]]\<rparr>,
      \<lparr>status = 200,
       body = EventsJson [\<lparr>event.id = Some ''a-1'', date = Some ''2024-05-01'',
                       room = Some ''R1'', startTime = Some ''10:00'', endTime = Some ''11:00'',
                       eventName = Some ''Seminar'', createdBy = Some ''admin1''\<rparr>]\<rparr>)"
  using delete_missing_id [of
      "\<lparr>action = Some ''delete'', id = Some ''b-2'', date = None, room = None,
        startTime = None, endTime = None, eventName = None\<rparr>"
      "\<lparr>schedule_file = [],
        events_file = [\<lparr>event.id = Some ''a-1'', date = Some ''2024-05-01'',
                       room = Some ''R1'', startTime = Some ''10:00'', endTime = Some ''11:00'',
                       eventName = Some ''Seminar'', createdBy = Some ''admin1''\<rparr>],
        emitted = []\<rparr>"
      "\<lparr>now = 1700000000000, random10000 = 4242, write_ok = True\<rparr>"
      "Some ''admin2''"]
  by simp

text \<open>
  C6. An update that supplies an id and a non-empty eventName and none of date, room,
  startTime and endTime changes only the eventName of the events with that id: their
  other fields and all other events stay as they were (when the write fails, nothing
  changes at all).
\<close>

theorem update_only_eventName:
  assumes "action b = Some ''update''" "truthy (events_body.id b)" "truthy (events_body.eventName b)"
    "\<not> truthy (events_body.date b)" "\<not> truthy (events_body.room b)"
    "\<not> truthy (events_body.startTime b)" "\<not> truthy (events_body.endTime b)"
  shows "events_file (fst (post_events e st u b)) =
           (if write_ok e
            then map (\<lambda>ev. if event.id ev = events_body.id b
                            then ev\<lparr>event.eventName := events_body.eventName b\<rparr> else ev)
                   (events_file st)
            else events_file st)
       \<and> length (events_file (fst (post_events e st u b))) = length (events_file st)
       \<and> (\<forall>j < length (events_file st).
            (events_file (fst (post_events e st u b)) ! j)
               \<lparr>event.eventName := event.eventName (events_file st ! j)\<rparr> = events_file st ! j
            \<and> (event.id (events_file st ! j) \<noteq> events_body.id b
                 \<longrightarrow> events_file (fst (post_events e st u b)) ! j = events_file st ! j))"
proof -
  have u: "update_event b = (\<lambda>ev. if event.id ev = events_body.id b
                            then ev\<lparr>event.eventName := events_body.eventName b\<rparr> else ev)"
    using assms by (auto simp: update_event_def js_or_def fun_eq_iff)
  show ?thesis
    using assms(1,2) by (simp add: post_events_def save_events_def Let_def u)
qed

theorem update_only_eventName_witness:
  "events_file (fst (post_events
      \<lparr>now = 1700000000000, random10000 = 4242, write_ok = True\<rparr>
      \<lparr>schedule_file = [],
       events_file = [\<lparr>event.id = Some ''a-1'', date = Some ''2024-05-01'',
                       room = Some ''R1'', startTime = Some ''10:00'', endTime = Some ''11:00'',
                       eventName = Some ''Seminar'', createdBy = Some ''admin1''\<rparr>,
                      \<lparr>event.id = Some ''b-2'', date = Some ''2024-05-02'',
                       room = Some ''R2'', startTime = Some ''12:00'', endTime = Some ''13:00'',
                       eventName = Some ''Exam'', createdBy = Some ''admin2''\<rparr>],
       emitted = []\<rparr>
      (Some ''admin2'')
      \<lparr>action = Some ''update'', id = Some ''a-1'', date = None, room = None,
       startTime = None, endTime = None, eventName = Some ''Talk''\<rparr>))
   = [\<lparr>event.id = Some ''a-1'', date = Some ''2024-05-01'',
       room = Some ''R1'', startTime = Some ''10:00'', endTime = Some ''11:00'',
       eventName = Some ''Talk'', createdBy = Some ''admin1''\<rparr>,
      \<lparr>event.id = Some ''b-2'', date = Some ''2024-05-02'',
       room = Some ''R2'', startTime = Some ''12:00'', endTime = Some ''13:00'',
       eventName = Some ''Exam'', createdBy = Some ''admin2''\<rparr>]"
  using update_only_eventName [of
      "\<lparr>action = Some ''update'', id = Some ''a-1'', date = None, room = None,
        startTime = None, endTime = None, eventName = Some ''Talk''\<rparr>"
      "\<lparr>now = 1700000000000, random10000 = 4242, write_ok = True\<rparr>"
      "\<lparr>schedule_file = [],
        events_file = [\<lparr>event.id = Some ''a-1'', date = Some ''2024-05-01'',
                       room = Some ''R1'', startTime = Some ''10:00'', endTime = Some ''11:00'',
                       eventName = Some ''Seminar'', createdBy = Some ''admin1''\<rparr>,
                      \<lparr>event.id = Some ''b-2'', date = Some ''2024-05-02'',
                       room = Some ''R2'', startTime = Some ''12:00'', endTime = Some ''13:00'',
                       eventName = Some ''Exam'', createdBy = Some ''admin2''\<rparr>],
        emitted = []\<rparr>"
      "Some ''admin2''"]
  by simp

text \<open>
  C5, as the spec states it: the id of a created event differs from every id already in
  the collection. The id is built from the clock and a random draw only, and the
  collection is not consulted: when it already holds the id for the same millisecond
  and draw, the new event gets the same id.
\<close>

theorem create_id_collision:
  "map event.id (events_file (fst (post_events
      \<lparr>now = 1700000000000, random10000 = 4242, write_ok = True\<rparr>
      \<lparr>schedule_file = [],
       events_file = [\<lparr>event.id = Some ''loyw3v28-4242'', date = Some ''2024-05-01'',
                       room = Some ''R1'', startTime = Some ''10:00'', endTime = Some ''11:00'',
                       eventName = Some ''Seminar'', createdBy = Some ''admin1''\<rparr>],
       emitted = []\<rparr>
      (Some ''admin2'')
      \<lparr>action = Some ''create'', id = None, date = Some ''2024-05-02'', room = Some ''R2'',
       startTime = Some ''12:00'', endTime = Some ''13:00'', eventName = Some ''Exam''\<rparr>)))
   = [Some ''loyw3v28-4242'', Some ''loyw3v28-4242'']"
  by (simp add: post_events_def save_events_def Let_def id_eval)

text \<open>
  C5, amended: a create request with date, room, startTime, endTime and eventName all
  non-empty, when the write succeeds, appends one event, so the collection has one more
  element; the new event has the submitted fields, \<open>createdBy\<close> is the caller's userId,
  and its id is \<open>newId\<close> of the clock and the draw, which differs from every id of the
  collection that was generated at another millisecond or with another draw.
\<close>

theorem create_appends:
  assumes "action b = Some ''create''" "truthy (events_body.date b)" "truthy (events_body.room b)"
    "truthy (events_body.startTime b)" "truthy (events_body.endTime b)"
    "truthy (events_body.eventName b)" "write_ok e"
  shows "(let ev = \<lparr>event.id = Some (newId e), date = events_body.date b,
                   room = events_body.room b, startTime = events_body.startTime b,
                   endTime = events_body.endTime b, eventName = events_body.eventName b,
                   createdBy = u\<rparr>
         in post_events e st u b =
              (st\<lparr>events_file := events_file st @ [ev],
                  emitted := emitted st @ [EventsUpdate (events_file st @ [ev])]\<rparr>,
               \<lparr>status = 200, body = EventsJson (events_file st @ [ev])\<rparr>)
            \<and> length (events_file (fst (post_events e st u b))) = length (events_file st) + 1
            \<and> (\<forall>x \<in> set (events_file st). \<forall>e'.
                  event.id x = Some (newId e')
                  \<and> (now e' \<noteq> now e \<or> random10000 e' \<noteq> random10000 e)
                  \<longrightarrow> event.id x \<noteq> event.id ev))"
proof -
  have "\<And>e'. now e' \<noteq> now e \<or> random10000 e' \<noteq> random10000 e \<Longrightarrow> newId e' \<noteq> newId e"
    using newId_inj by blast
  then show ?thesis
    using assms by (auto simp: post_events_def save_events_def Let_def)
qed

theorem create_appends_witness:
  "newId \<lparr>now = 1699999999999, random10000 = 17, write_ok = True\<rparr> = ''loyw3v27-17''
   \<and> newId \<lparr>now = 1700000000000, random10000 = 4242, write_ok = True\<rparr> = ''loyw3v28-4242''
   \<and> post_events
      \<lparr>now = 1700000000000, random10000 = 4242, write_ok = True\<rparr>
      \<lparr>schedule_file = [],
       events_file = [\<lparr>event.id = Some ''loyw3v27-17'', date = Some ''2024-04-30'',
                       room = Some ''R2'', startTime = Some ''12:00'', endTime = Some ''13:00'',
                       eventName = Some ''Exam'', createdBy = Some ''admin2''\<rparr>],
       emitted = []\<rparr>
      (Some ''admin1'')
      \<lparr>action = Some ''create'', id = None, date = Some ''2024-05-01'', room = Some ''R1'',
       startTime = Some ''10:00'', endTime = Some ''11:00'', eventName = Some ''Seminar''\<rparr>
   = (\<lparr>schedule_file = [],
       events_file = [\<lparr>event.id = Some ''loyw3v27-17'', date = Some ''2024-04-30'',
                       room = Some ''R2'', startTime = Some ''12:00'', endTime = Some ''13:00'',
                       eventName = Some ''Exam'', createdBy = Some ''admin2''\<rparr>,
                      \<lparr>event.id = Some ''loyw3v28-4242'', date = Some ''2024-05-01'',
                       room = Some ''R1'', startTime = Some ''10:00'', endTime = Some ''11:00'',
                       eventName = Some ''Seminar'', createdBy = Some ''admin1''\<rparr>],
       emitted = [EventsUpdate
                     [\<lparr>event.id = Some ''loyw3v27-17'', date = Some ''2024-04-30'',
                       room = Some ''R2'', startTime = Some ''12:00'', endTime = Some ''13:00'',
                       eventName = Some ''Exam'', createdBy = Some ''admin2''\<rparr>,
                      \<lparr>event.id = Some ''loyw3v28-4242'', date = Some ''2024-05-01'',
                       room = Some ''R1'', startTime = Some ''10:00'', endTime = Some ''11:00'',
                       eventName = Some ''Seminar'', createdBy = Some ''admin1''\<rparr>]]\<rparr>,
      \<lparr>status = 200,
       body = EventsJson
                     [\<lparr>event.id = Some ''loyw3v27-17'', date = Some ''2024-04-30'',
                       room = Some ''R2'', startTime = Some ''12:00'', endTime = Some ''13:00'',
                       eventName = Some ''Exam'', createdBy = Some ''admin2''\<rparr>,
                      \<lparr>event.id = Some ''loyw3v28-4242'', date = Some ''2024-05-01'',
                       room = Some ''R1'', startTime = Some ''10:00'', endTime = Some ''11:00'',
                       eventName = Some ''Seminar'', createdBy = Some ''admin1''\<rparr>]\<rparr>)
   \<and> Some ''loyw3v27-17''
       \<noteq> Some (newId \<lparr>now = 1700000000000, random10000 = 4242, write_ok = True\<rparr>)"
proof -
  let ?e = "\<lparr>now = 1700000000000, random10000 = 4242, write_ok = True\<rparr>"
  let ?e' = "\<lparr>now = 1699999999999, random10000 = 17, write_ok = True\<rparr>"
  let ?old = "\<lparr>event.id = Some ''loyw3v27-17'', date = Some ''2024-04-30'',
                room = Some ''R2'', startTime = Some ''12:00'', endTime = Some ''13:00'',
                eventName = Some ''Exam'', createdBy = Some ''admin2''\<rparr>"
  let ?st = "\<lparr>schedule_file = [], events_file = [?old], emitted = []\<rparr>"
  let ?b = "\<lparr>action = Some ''create'', id = None, date = Some ''2024-05-01'',
              room = Some ''R1'', startTime = Some ''10:00'', endTime = Some ''11:00'',
              eventName = Some ''Seminar''\<rparr>"
  have old: "newId ?e' = ''loyw3v27-17''" by (simp add: id_eval)
  have new: "newId ?e = ''loyw3v28-4242''" by (simp add: id_eval)
  have all: "(let ev = \<lparr>event.id = Some (newId ?e), date = events_body.date ?b,
                   room = events_body.room ?b, startTime = events_body.startTime ?b,
                   endTime = events_body.endTime ?b, eventName = events_body.eventName ?b,
                   createdBy = Some ''admin1''\<rparr>
         in post_events ?e ?st (Some ''admin1'') ?b =
              (?st\<lparr>events_file := events_file ?st @ [ev],
                  emitted := emitted ?st @ [EventsUpdate (events_file ?st @ [ev])]\<rparr>,
               \<lparr>status = 200, body = EventsJson (events_file ?st @ [ev])\<rparr>)
            \<and> length (events_file (fst (post_events ?e ?st (Some ''admin1'') ?b)))
                = length (events_file ?st) + 1
            \<and> (\<forall>x \<in> set (events_file ?st). \<forall>e'.
                  event.id x = Some (newId e')
                  \<and> (now e' \<noteq> now ?e \<or> random10000 e' \<noteq> random10000 ?e)
                  \<longrightarrow> event.id x \<noteq> event.id ev))"
    by (rule create_appends) simp_all
  from all have run: "post_events ?e ?st (Some ''admin1'') ?b =
              (?st\<lparr>events_file := events_file ?st @
                   [\<lparr>event.id = Some (newId ?e), date = events_body.date ?b,
                   room = events_body.room ?b, startTime = events_body.startTime ?b,
                   endTime = events_body.endTime ?b, eventName = events_body.eventName ?b,
                   createdBy = Some ''admin1''\<rparr>],
                  emitted := emitted ?st @ [EventsUpdate (events_file ?st @
                   [\<lparr>event.id = Some (newId ?e), date = events_body.date ?b,
                   room = events_body.room ?b, startTime = events_body.startTime ?b,
                   endTime = events_body.endTime ?b, eventName = events_body.eventName ?b,
                   createdBy = Some ''admin1''\<rparr>])]\<rparr>,
               \<lparr>status = 200, body = EventsJson (events_file ?st @
                   [\<lparr>event.id = Some (newId ?e), date = events_body.date ?b,
                   room = events_body.room ?b, startTime = events_body.startTime ?b,
                   endTime = events_body.endTime ?b, eventName = events_body.eventName ?b,
                   createdBy = Some ''admin1''\<rparr>])\<rparr>)"
    unfolding Let_def by (rule conjunct1)
  from all have "\<forall>x \<in> set (events_file ?st). \<forall>e'.
                  event.id x = Some (newId e')
                  \<and> (now e' \<noteq> now ?e \<or> random10000 e' \<noteq> random10000 ?e)
                  \<longrightarrow> event.id x \<noteq> Some (newId ?e)"
    unfolding Let_def by simp
  then have "event.id ?old = Some (newId ?e')
                  \<and> (now ?e' \<noteq> now ?e \<or> random10000 ?e' \<noteq> random10000 ?e)
                  \<longrightarrow> event.id ?old \<noteq> Some (newId ?e)"
    by (simp del: event.simps)
  then have fresh: "Some ''loyw3v27-17'' \<noteq> Some (newId ?e)"
    using old by simp
  show ?thesis
    using old new run fresh by (simp only:) simp
qed

end
